theory Spec2Isabelle
  imports Complex_Main "HOL-Library.Sublist"
begin

section \<open>Python strings\<close>

text \<open>
  A Python \<open>str\<close> is modelled as a \<open>string\<close> holding its UTF-8 encoding, so the Korean
  literals of \<open>main.py\<close> are written as byte lists (an English gloss is given with each).
  \<open>x in y\<close> on strings is \<^const>\<open>sublist\<close>, \<open>y.endswith(x)\<close> is \<^const>\<open>suffix\<close>.
\<close>

function str_nat :: "nat \<Rightarrow> string" where
  \<comment> \<open>\<open>str(n)\<close> and \<open>f"{n}"\<close> for a non-negative integer: its decimal digits\<close>
  "str_nat n =
     (if n < 10 then [''0123456789'' ! n]
      else str_nat (n div 10) @ [''0123456789'' ! (n mod 10)])"
  by pat_completeness auto
termination
  by (relation "measure (\<lambda>n. n)") auto

declare str_nat.simps [simp del]

definition is_space :: "char \<Rightarrow> bool" where
  \<comment> \<open>the ASCII characters for which \<open>str.isspace\<close> holds\<close>
  "is_space c \<longleftrightarrow>
     c \<in> set [CHR 0x20, CHR 0x09, CHR 0x0A, CHR 0x0B, CHR 0x0C, CHR 0x0D,
                CHR 0x1C, CHR 0x1D, CHR 0x1E, CHR 0x1F]"

definition lstrip :: "string \<Rightarrow> string" where
  \<comment> \<open>\<open>s.lstrip()\<close>\<close>
  "lstrip s = dropWhile is_space s"

definition rstrip :: "string \<Rightarrow> string" where
  \<comment> \<open>\<open>s.rstrip()\<close>\<close>
  "rstrip s = rev (dropWhile is_space (rev s))"

definition strip :: "string \<Rightarrow> string" where
  \<comment> \<open>\<open>s.strip()\<close>\<close>
  "strip s = rstrip (lstrip s)"

definition lower :: "string \<Rightarrow> string" where
  \<comment> \<open>\<open>s.lower()\<close> on ASCII letters\<close>
  "lower s =
     map (\<lambda>c. case map_of (zip ''ABCDEFGHIJKLMNOPQRSTUVWXYZ'' ''abcdefghijklmnopqrstuvwxyz'') c of
                Some d \<Rightarrow> d | None \<Rightarrow> c) s"

fun join :: "string \<Rightarrow> string list \<Rightarrow> string" where
  \<comment> \<open>\<open>sep.join(xs)\<close>\<close>
  "join sep [] = []"
| "join sep [x] = x"
| "join sep (x # y # ys) = x @ sep @ join sep (y # ys)"

definition py_int :: "real \<Rightarrow> int" where
  \<comment> \<open>\<open>int(x)\<close> on a float: truncation towards zero. The float is taken as the real number
      it approximates.\<close>
  "py_int x = (if 0 \<le> x then \<lfloor>x\<rfloor> else \<lceil>x\<rceil>)"

definition kr_page :: string where
  \<comment> \<open>'page' (U+D398 U+C774 U+C9C0)\<close>
  "kr_page =
     [CHR 0xED, CHR 0x8E, CHR 0x98, CHR 0xEC, CHR 0x9D, CHR 0xB4, CHR 0xEC, CHR 0xA7,
     CHR 0x80]"

definition kr_doc_loaded :: string where
  \<comment> \<open>'PDF document load complete ('\<close>
  "kr_doc_loaded =
     ''PDF '' @ [CHR 0xEB, CHR 0xAC, CHR 0xB8, CHR 0xEC, CHR 0x84, CHR 0x9C] @ '' '' @
     [CHR 0xEB, CHR 0xA1, CHR 0x9C, CHR 0xEB, CHR 0x93, CHR 0x9C] @ '' '' @ [CHR 0xEC,
     CHR 0x99, CHR 0x84, CHR 0xEB, CHR 0xA3, CHR 0x8C] @ '' (''"

definition kr_text_extracting :: string where
  \<comment> \<open>' extracting text'\<close>
  "kr_text_extracting =
     '' '' @ [CHR 0xED, CHR 0x85, CHR 0x8D, CHR 0xEC, CHR 0x8A, CHR 0xA4, CHR 0xED,
     CHR 0x8A, CHR 0xB8] @ '' '' @ [CHR 0xEC, CHR 0xB6, CHR 0x94, CHR 0xEC, CHR 0xB6,
     CHR 0x9C] @ '' '' @ [CHR 0xEC, CHR 0xA4, CHR 0x91]"

definition kr_table :: string where
  \<comment> \<open>'table'\<close>
  "kr_table =
     [CHR 0xED, CHR 0x91, CHR 0x9C]"

definition kr_image :: string where
  \<comment> \<open>'image'\<close>
  "kr_image =
     [CHR 0xEC, CHR 0x9D, CHR 0xB4, CHR 0xEB, CHR 0xAF, CHR 0xB8, CHR 0xEC, CHR 0xA7,
     CHR 0x80]"

definition kr_n_results :: string where
  \<comment> \<open>' analysis results' (after the count)\<close>
  "kr_n_results =
     [CHR 0xEA, CHR 0xB0, CHR 0x9C] @ '' '' @ [CHR 0xEB, CHR 0xB6, CHR 0x84, CHR 0xEC,
     CHR 0x84, CHR 0x9D] @ '' '' @ [CHR 0xEA, CHR 0xB2, CHR 0xB0, CHR 0xEA, CHR 0xB3,
     CHR 0xBC]"

definition kr_analyzing :: string where
  \<comment> \<open>' being analysed'\<close>
  "kr_analyzing =
     '' '' @ [CHR 0xEB, CHR 0xB6, CHR 0x84, CHR 0xEC, CHR 0x84, CHR 0x9D] @ '' '' @
     [CHR 0xEC, CHR 0xA4, CHR 0x91]"

definition kr_analysis :: string where
  \<comment> \<open>' analysis:'\<close>
  "kr_analysis =
     '' '' @ [CHR 0xEB, CHR 0xB6, CHR 0x84, CHR 0xEC, CHR 0x84, CHR 0x9D] @ '':''"

definition kr_analysis_failed :: string where
  \<comment> \<open>': analysis failed - '\<close>
  "kr_analysis_failed =
     '': '' @ [CHR 0xEB, CHR 0xB6, CHR 0x84, CHR 0xEC, CHR 0x84, CHR 0x9D] @ '' '' @
     [CHR 0xEC, CHR 0x8B, CHR 0xA4, CHR 0xED, CHR 0x8C, CHR 0xA8] @ '' - ''"

definition kr_pdf_done :: string where
  \<comment> \<open>'PDF analysis complete'\<close>
  "kr_pdf_done =
     ''PDF '' @ [CHR 0xEB, CHR 0xB6, CHR 0x84, CHR 0xEC, CHR 0x84, CHR 0x9D] @ '' '' @
     [CHR 0xEC, CHR 0x99, CHR 0x84, CHR 0xEB, CHR 0xA3, CHR 0x8C]"

definition kr_image_analysis_failed :: string where
  \<comment> \<open>'image analysis failed: '\<close>
  "kr_image_analysis_failed =
     [CHR 0xEC, CHR 0x9D, CHR 0xB4, CHR 0xEB, CHR 0xAF, CHR 0xB8, CHR 0xEC, CHR 0xA7,
     CHR 0x80] @ '' '' @ [CHR 0xEB, CHR 0xB6, CHR 0x84, CHR 0xEC, CHR 0x84, CHR 0x9D] @
     '' '' @ [CHR 0xEC, CHR 0x8B, CHR 0xA4, CHR 0xED, CHR 0x8C, CHR 0xA8] @ '': ''"

definition kr_start :: string where
  \<comment> \<open>'PDF analysis started'\<close>
  "kr_start =
     ''PDF '' @ [CHR 0xEB, CHR 0xB6, CHR 0x84, CHR 0xEC, CHR 0x84, CHR 0x9D] @ '' '' @
     [CHR 0xEC, CHR 0x8B, CHR 0x9C, CHR 0xEC, CHR 0x9E, CHR 0x91]"

definition kr_ai_analyzing :: string where
  \<comment> \<open>'AI analysis in progress'\<close>
  "kr_ai_analyzing =
     ''AI '' @ [CHR 0xEB, CHR 0xB6, CHR 0x84, CHR 0xEC, CHR 0x84, CHR 0x9D] @ '' '' @
     [CHR 0xEC, CHR 0xA4, CHR 0x91]"

definition kr_done :: string where
  \<comment> \<open>'analysis complete'\<close>
  "kr_done =
     [CHR 0xEB, CHR 0xB6, CHR 0x84, CHR 0xEC, CHR 0x84, CHR 0x9D] @ '' '' @ [CHR 0xEC,
     CHR 0x99, CHR 0x84, CHR 0xEB, CHR 0xA3, CHR 0x8C]"

definition kr_fail :: string where
  \<comment> \<open>'analysis failed'\<close>
  "kr_fail =
     [CHR 0xEB, CHR 0xB6, CHR 0x84, CHR 0xEC, CHR 0x84, CHR 0x9D] @ '' '' @ [CHR 0xEC,
     CHR 0x8B, CHR 0xA4, CHR 0xED, CHR 0x8C, CHR 0xA8]"

definition kr_cancelled_by_user :: string where
  \<comment> \<open>'cancelled by the user'\<close>
  "kr_cancelled_by_user =
     [CHR 0xEC, CHR 0x82, CHR 0xAC, CHR 0xEC, CHR 0x9A, CHR 0xA9, CHR 0xEC, CHR 0x9E,
     CHR 0x90, CHR 0xEC, CHR 0x97, CHR 0x90] @ '' '' @ [CHR 0xEC, CHR 0x9D, CHR 0x98,
     CHR 0xED, CHR 0x95, CHR 0xB4] @ '' '' @ [CHR 0xEC, CHR 0xB7, CHR 0xA8, CHR 0xEC,
     CHR 0x86, CHR 0x8C, CHR 0xEB, CHR 0x90, CHR 0xA8]"

definition image_prompt :: string where
  \<comment> \<open>the prompt of analyze_image_with_ollama\<close>
  "image_prompt =
     [CHR 0xEC, CHR 0x9D, CHR 0xB4] @ '' '' @ [CHR 0xEC, CHR 0x9D, CHR 0xB4, CHR 0xEB,
     CHR 0xAF, CHR 0xB8, CHR 0xEC, CHR 0xA7, CHR 0x80, CHR 0xEC, CHR 0x97, CHR 0x90] @
     '' '' @ [CHR 0xEC, CHR 0x9E, CHR 0x88, CHR 0xEB, CHR 0x8A, CHR 0x94] @ '' '' @
     [CHR 0xEB, CHR 0xAA, CHR 0xA8, CHR 0xEB, CHR 0x93, CHR 0xA0] @ '' '' @ [CHR 0xED,
     CHR 0x85, CHR 0x8D, CHR 0xEC, CHR 0x8A, CHR 0xA4, CHR 0xED, CHR 0x8A, CHR 0xB8,
     CHR 0xEB, CHR 0xA5, CHR 0xBC] @ '' '' @ [CHR 0xEC, CHR 0xB6, CHR 0x94, CHR 0xEC,
     CHR 0xB6, CHR 0x9C, CHR 0xED, CHR 0x95, CHR 0x98, CHR 0xEA, CHR 0xB3, CHR 0xA0] @
     '', '' @ [CHR 0xEC, CHR 0x9D, CHR 0xB4, CHR 0xEB, CHR 0xAF, CHR 0xB8, CHR 0xEC,
     CHR 0xA7, CHR 0x80, CHR 0xEC, CHR 0x9D, CHR 0x98] @ '' '' @ [CHR 0xEB, CHR 0x82,
     CHR 0xB4, CHR 0xEC, CHR 0x9A, CHR 0xA9, CHR 0xEC, CHR 0x9D, CHR 0x84] @ '' '' @
     [CHR 0xEC, CHR 0x83, CHR 0x81, CHR 0xEC, CHR 0x84, CHR 0xB8, CHR 0xED, CHR 0x9E,
     CHR 0x88] @ '' '' @ [CHR 0xEC, CHR 0x84, CHR 0xA4, CHR 0xEB, CHR 0xAA, CHR 0x85,
     CHR 0xED, CHR 0x95, CHR 0xB4, CHR 0xEC, CHR 0xA3, CHR 0xBC, CHR 0xEC, CHR 0x84,
     CHR 0xB8, CHR 0xEC, CHR 0x9A, CHR 0x94] @ ''. '' @ [CHR 0xED, CHR 0x85, CHR 0x8D,
     CHR 0xEC, CHR 0x8A, CHR 0xA4, CHR 0xED, CHR 0x8A, CHR 0xB8, CHR 0xEA, CHR 0xB0,
     CHR 0x80] @ '' '' @ [CHR 0xEC, CHR 0x9E, CHR 0x88, CHR 0xEB, CHR 0x8B, CHR 0xA4,
     CHR 0xEB, CHR 0xA9, CHR 0xB4] @ '' '' @ [CHR 0xEC, CHR 0xA0, CHR 0x95, CHR 0xED,
     CHR 0x99, CHR 0x95, CHR 0xED, CHR 0x9E, CHR 0x88] @ '' '' @ [CHR 0xEC, CHR 0xB6,
     CHR 0x94, CHR 0xEC, CHR 0xB6, CHR 0x9C, CHR 0xED, CHR 0x95, CHR 0xB4, CHR 0xEC,
     CHR 0xA3, CHR 0xBC, CHR 0xEC, CHR 0x84, CHR 0xB8, CHR 0xEC, CHR 0x9A, CHR 0x94] @
     ''.''"

definition text_prompt_prefix :: string where
  \<comment> \<open>the default prompt of analyze_text_with_ollama, up to the text\<close>
  "text_prompt_prefix =
     [CHR 0xEB, CHR 0x8B, CHR 0xA4, CHR 0xEC, CHR 0x9D, CHR 0x8C] @ '' '' @ [CHR 0xED,
     CHR 0x85, CHR 0x8D, CHR 0xEC, CHR 0x8A, CHR 0xA4, CHR 0xED, CHR 0x8A, CHR 0xB8,
     CHR 0xEB, CHR 0xA5, CHR 0xBC] @ '' '' @ [CHR 0xEB, CHR 0xB6, CHR 0x84, CHR 0xEC,
     CHR 0x84, CHR 0x9D, CHR 0xED, CHR 0x95, CHR 0x98, CHR 0xEA, CHR 0xB3, CHR 0xA0] @
     '' '' @ [CHR 0xEC, CHR 0x9A, CHR 0x94, CHR 0xEC, CHR 0x95, CHR 0xBD, CHR 0xED,
     CHR 0x95, CHR 0xB4, CHR 0xEC, CHR 0xA3, CHR 0xBC, CHR 0xEC, CHR 0x84, CHR 0xB8,
     CHR 0xEC, CHR 0x9A, CHR 0x94] @ ''. '' @ [CHR 0xEC, CHR 0xA3, CHR 0xBC, CHR 0xEC,
     CHR 0x9A, CHR 0x94] @ '' '' @ [CHR 0xEB, CHR 0x82, CHR 0xB4, CHR 0xEC, CHR 0x9A,
     CHR 0xA9] @ '', '' @ [CHR 0xED, CHR 0x95, CHR 0xB5, CHR 0xEC, CHR 0x8B, CHR 0xAC] @
     '' '' @ [CHR 0xED, CHR 0x8F, CHR 0xAC, CHR 0xEC, CHR 0x9D, CHR 0xB8, CHR 0xED,
     CHR 0x8A, CHR 0xB8] @ '', '' @ [CHR 0xEA, CHR 0xB7, CHR 0xB8, CHR 0xEB, CHR 0xA6,
     CHR 0xAC, CHR 0xEA, CHR 0xB3, CHR 0xA0] @ '' '' @ [CHR 0xEC, CHR 0xA4, CHR 0x91,
     CHR 0xEC, CHR 0x9A, CHR 0x94, CHR 0xED, CHR 0x95, CHR 0x9C] @ '' '' @ [CHR 0xEC,
     CHR 0xA0, CHR 0x95, CHR 0xEB, CHR 0xB3, CHR 0xB4, CHR 0xEB, CHR 0x93, CHR 0xA4,
     CHR 0xEC, CHR 0x9D, CHR 0x84] @ '' '' @ [CHR 0xED, CHR 0x95, CHR 0x9C, CHR 0xEA,
     CHR 0xB5, CHR 0xAD, CHR 0xEC, CHR 0x96, CHR 0xB4, CHR 0xEB, CHR 0xA1, CHR 0x9C] @
     '' '' @ [CHR 0xEC, CHR 0xA0, CHR 0x95, CHR 0xEB, CHR 0xA6, CHR 0xAC, CHR 0xED,
     CHR 0x95, CHR 0xB4, CHR 0xEC, CHR 0xA3, CHR 0xBC, CHR 0xEC, CHR 0x84, CHR 0xB8,
     CHR 0xEC, CHR 0x9A, CHR 0x94] @ '':'' @ [CHR 0x0A, CHR 0x0A]"

section \<open>Data model\<close>

record PDFAnalysisResponse =
  r_filename :: string
  r_text_content :: string
  r_analysis :: string
  r_model_used :: string
  r_page_count :: nat
  r_task_id :: "string option"

text \<open>
  An entry of \<open>processing_tasks\<close>: the dictionary built by \<open>analyze_pdf_async\<close>, one field
  per key. \<open>status\<close> is one of the strings \<open>processing\<close>, \<open>completed\<close>, \<open>failed\<close>,
  \<open>cancelled\<close>.
\<close>

record task =
  task_id :: string
  status :: string
  progress :: int
  current_step :: string
  result :: "PDFAnalysisResponse option"
  error :: "string option"
  filename :: string
  model :: string

text \<open>
  Exceptions. \<open>PyException msg\<close> is \<open>Exception(msg)\<close> and every exception of a library
  whose \<open>str\<close> is \<open>msg\<close>; \<open>KeyError k\<close> is raised by \<open>processing_tasks[k]\<close> on a missing
  key; \<open>HTTPException code detail\<close> is FastAPI's.
\<close>

datatype exn =
    PyException string
  | KeyError string
  | HTTPException nat string

fun str_exn :: "exn \<Rightarrow> string" where
  \<comment> \<open>\<open>str(e)\<close>; for \<open>HTTPException\<close> as Starlette defines \<open>__str__\<close>:
      \<open>f"{self.status_code}: {self.detail}"\<close>; for \<open>KeyError\<close> the \<open>repr\<close> of the key\<close>
  "str_exn (PyException msg) = msg"
| "str_exn (KeyError k) = [CHR 0x27] @ k @ [CHR 0x27]"
| "str_exn (HTTPException code detail) = str_nat code @ '': '' @ detail"

text \<open>
  The state: the global \<open>processing_tasks\<close>, and a history variable that records every
  write of a \<open>progress\<close> field in the order performed, the one at the creation of the entry
  included: the task id, the task's status at the moment of the write, and the value
  written. No operation reads the history.
\<close>

record state =
  processing_tasks :: "string \<rightharpoonup> task"
  progress_writes :: "(string \<times> string \<times> int) list"

datatype 'a res = Return 'a state | Raise exn state

fun bind_res :: "'a res \<Rightarrow> ('a \<Rightarrow> state \<Rightarrow> 'b res) \<Rightarrow> 'b res" where
  \<comment> \<open>sequencing of two statements: an exception of the first skips the second\<close>
  "bind_res (Return a s) f = f a s"
| "bind_res (Raise e s) f = Raise e s"

fun final_state :: "'a res \<Rightarrow> state" where
  "final_state (Return a s) = s"
| "final_state (Raise e s) = s"

subsection \<open>Reads and writes of \<open>processing_tasks\<close>\<close>

definition get_status :: "string \<Rightarrow> state \<Rightarrow> string option" where
  \<comment> \<open>\<open>processing_tasks.get(task_id, {}).get("status")\<close>\<close>
  "get_status tid s = map_option status (processing_tasks s tid)"

definition set_current_step :: "string \<Rightarrow> string \<Rightarrow> state \<Rightarrow> unit res" where
  \<comment> \<open>\<open>processing_tasks[task_id]["current_step"] = v\<close>\<close>
  "set_current_step tid v s =
     (case processing_tasks s tid of
        None \<Rightarrow> Raise (KeyError tid) s
      | Some t \<Rightarrow> Return () (s\<lparr>processing_tasks := (processing_tasks s)(tid \<mapsto> t\<lparr>current_step := v\<rparr>)\<rparr>))"

definition set_progress :: "string \<Rightarrow> int \<Rightarrow> state \<Rightarrow> unit res" where
  \<comment> \<open>\<open>processing_tasks[task_id]["progress"] = v\<close>\<close>
  "set_progress tid v s =
     (case processing_tasks s tid of
        None \<Rightarrow> Raise (KeyError tid) s
      | Some t \<Rightarrow> Return () (s\<lparr>processing_tasks := (processing_tasks s)(tid \<mapsto> t\<lparr>progress := v\<rparr>),
                                progress_writes := progress_writes s @ [(tid, status t, v)]\<rparr>))"

definition set_status :: "string \<Rightarrow> string \<Rightarrow> state \<Rightarrow> unit res" where
  \<comment> \<open>\<open>processing_tasks[task_id]["status"] = v\<close>\<close>
  "set_status tid v s =
     (case processing_tasks s tid of
        None \<Rightarrow> Raise (KeyError tid) s
      | Some t \<Rightarrow> Return () (s\<lparr>processing_tasks := (processing_tasks s)(tid \<mapsto> t\<lparr>status := v\<rparr>)\<rparr>))"

definition update_completed :: "string \<Rightarrow> PDFAnalysisResponse \<Rightarrow> state \<Rightarrow> unit res" where
  \<comment> \<open>\<open>processing_tasks[task_id].update({"status": "completed", "progress": 100,
      "current_step": ..., "result": result})\<close>; the keys are written in this order\<close>
  "update_completed tid r s =
     (case processing_tasks s tid of
        None \<Rightarrow> Raise (KeyError tid) s
      | Some t \<Rightarrow> Return ()
          (s\<lparr>processing_tasks := (processing_tasks s)(tid \<mapsto>
                t\<lparr>status := ''completed'', progress := 100, current_step := kr_done,
                  result := Some r\<rparr>),
             progress_writes := progress_writes s @ [(tid, ''completed'', 100)]\<rparr>))"

definition update_failed :: "string \<Rightarrow> string \<Rightarrow> state \<Rightarrow> unit res" where
  \<comment> \<open>\<open>processing_tasks[task_id].update({"status": "failed", "progress": 0,
      "current_step": ..., "error": str(e)})\<close>\<close>
  "update_failed tid msg s =
     (case processing_tasks s tid of
        None \<Rightarrow> Raise (KeyError tid) s
      | Some t \<Rightarrow> Return ()
          (s\<lparr>processing_tasks := (processing_tasks s)(tid \<mapsto>
                t\<lparr>status := ''failed'', progress := 0, current_step := kr_fail,
                  error := Some msg\<rparr>),
             progress_writes := progress_writes s @ [(tid, ''failed'', 0)]\<rparr>))"

section \<open>Documents and the external collaborators\<close>

text \<open>
  What PyMuPDF gives for an embedded image: \<open>fitz.Pixmap(pdf_document, xref)\<close> raises
  (\<open>Inl\<close> the message) or returns a pixmap with its \<open>n\<close> and \<open>alpha\<close>;
  \<open>png_base64\<close> is \<open>base64.b64encode(pix.tobytes("png")).decode()\<close>, which may raise
  as well.
\<close>

record pixmap =
  pix_n :: int
  pix_alpha :: int
  png_base64 :: "string + string"

type_synonym image = "string + pixmap"

text \<open>A page of PyMuPDF is its \<open>get_images()\<close>; a page of pdfplumber is its
  \<open>extract_text()\<close> (possibly \<open>None\<close>) and its \<open>extract_tables()\<close>: a table is a list of
  rows, a row is \<open>None\<close> or a list of cells, a cell is \<open>None\<close> or a string.\<close>

type_synonym fitz_page = "image list"

type_synonym table = "string option list option list"

record plumber_page =
  extract_text :: "string option"
  extract_tables :: "table list"

text \<open>An uploaded file: its name, and what \<open>fitz.open\<close> and \<open>pdfplumber.open\<close> make of its
  content (\<open>Inl\<close> the message of the exception raised on an unreadable document).\<close>

record UploadFile =
  upload_filename :: string
  fitz_open :: "string + fitz_page list"
  pdfplumber_open :: "string + plumber_page list"

text \<open>
  The calls of the two libraries inside the page loop (\<open>extract_text\<close>, \<open>extract_tables\<close>,
  \<open>get_images\<close>) and the read of the upload are taken to return; opening the document and
  loading or encoding an image may raise.

  The points where the pipeline awaits, and so where the event loop may serve other
  requests before the pipeline goes on: the read of the upload, the description of image
  \<open>img_index\<close> of page \<open>page_num\<close>, and the final analysis. Between two awaits the
  pipeline runs without interruption. Every \<open>await\<close> of the source is taken as a point where
  requests may be served, whether or not the awaited call does give control back.
\<close>

datatype await_point = AwaitRead | AwaitImage nat nat | AwaitSummarize

datatype request = CancelTask string | DeleteTask string

text \<open>
  The environment of one pipeline run: the requests served at each await point, and the
  outcome of \<open>ollama.generate(model, prompt, images)\<close> there (\<open>Inl\<close> the message of the
  exception raised, \<open>Inr\<close> the \<open>response\<close> field).
\<close>

record env =
  requests :: "await_point \<Rightarrow> request list"
  ollama_generate :: "await_point \<Rightarrow> string \<Rightarrow> string \<Rightarrow> string list \<Rightarrow> string + string"

section \<open>The task endpoints\<close>

definition analyze_pdf_async :: "string \<Rightarrow> UploadFile \<Rightarrow> string \<Rightarrow> state \<Rightarrow> string res" where
  \<comment> \<open>\<open>uuid\<close> is the value of \<open>str(uuid.uuid4())\<close>; the background task it schedules is
      \<open>process_pdf_async\<close> below. Returns the task id of the response.\<close>
  "analyze_pdf_async uuid file mdl s =
     (if \<not> suffix ''.pdf'' (lower (upload_filename file))
      then Raise (HTTPException 400 (str_exn (HTTPException 400 ''Only PDF files are allowed''))) s
      else Return uuid
        (s\<lparr>processing_tasks := (processing_tasks s)(uuid \<mapsto>
              \<lparr>task_id = uuid, status = ''processing'', progress = 0, current_step = kr_start,
               result = None, error = None, filename = upload_filename file, model = mdl\<rparr>),
           progress_writes := progress_writes s @ [(uuid, ''processing'', 0)]\<rparr>))"

definition get_task_status :: "string \<Rightarrow> state \<Rightarrow> task res" where
  "get_task_status tid s =
     (case processing_tasks s tid of
        None \<Rightarrow> Raise (HTTPException 404 ''Task not found'') s
      | Some t \<Rightarrow> Return t s)"

definition cancel_task :: "string \<Rightarrow> state \<Rightarrow> string res" where
  "cancel_task tid s =
     (case processing_tasks s tid of
        None \<Rightarrow> Raise (HTTPException 404 ''Task not found'') s
      | Some t \<Rightarrow>
          if status t \<in> set [''completed'', ''failed'', ''cancelled'']
          then Raise (HTTPException 400 ''Task cannot be cancelled'') s
          else bind_res (set_status tid ''cancelled'' s) (\<lambda>_ s1.
               bind_res (set_current_step tid kr_cancelled_by_user s1) (\<lambda>_ s2.
               Return ''Task cancelled successfully'' s2)))"

definition delete_task :: "string \<Rightarrow> state \<Rightarrow> string res" where
  "delete_task tid s =
     (case processing_tasks s tid of
        None \<Rightarrow> Raise (HTTPException 404 ''Task not found'') s
      | Some t \<Rightarrow> Return ''Task deleted successfully''
          (s\<lparr>processing_tasks := (processing_tasks s)(tid := None)\<rparr>))"

fun serve :: "request \<Rightarrow> state \<Rightarrow> state" where
  \<comment> \<open>the effect of a request on the state, its response dropped\<close>
  "serve (CancelTask tid) s = final_state (cancel_task tid s)"
| "serve (DeleteTask tid) s = final_state (delete_task tid s)"

definition suspend :: "env \<Rightarrow> await_point \<Rightarrow> state \<Rightarrow> state" where
  \<comment> \<open>an \<open>await\<close>: the requests that arrive there are served, in order\<close>
  "suspend ev pt s = fold serve (requests ev pt) s"

section \<open>The adapters of the model runtime\<close>

definition analyze_image_with_ollama :: "env \<Rightarrow> await_point \<Rightarrow> string \<Rightarrow> string \<Rightarrow> string" where
  "analyze_image_with_ollama ev pt image_base64 mdl =
     (case ollama_generate ev pt mdl image_prompt [image_base64] of
        Inr response \<Rightarrow> response
      | Inl e \<Rightarrow> kr_image_analysis_failed @ e)"

definition analyze_text_with_ollama ::
    "env \<Rightarrow> await_point \<Rightarrow> string \<Rightarrow> string \<Rightarrow> string option \<Rightarrow> exn + string" where
  "analyze_text_with_ollama ev pt text model_name prompt =
     (let prompt' = (case prompt of
                       None \<Rightarrow> text_prompt_prefix @ text
                     | Some p \<Rightarrow> if p = [] then text_prompt_prefix @ text else p)
      in case ollama_generate ev pt model_name prompt' [] of
           Inr response \<Rightarrow> Inr response
         | Inl e \<Rightarrow> Inl (HTTPException 500 (''Failed to analyze text with Ollama: '' @ e)))"

section \<open>The pipeline\<close>

fun if_task :: "string option \<Rightarrow> (string \<Rightarrow> state \<Rightarrow> unit res) \<Rightarrow> state \<Rightarrow> unit res" where
  \<comment> \<open>\<open>if task_id: ...\<close>: neither \<open>None\<close> nor the empty string\<close>
  "if_task None f s = Return () s"
| "if_task (Some tid) f s = (if tid \<noteq> [] then f tid s else Return () s)"

fun check_cancelled :: "string option \<Rightarrow> state \<Rightarrow> unit res" where
  \<comment> \<open>\<open>if task_id and processing_tasks.get(task_id, {}).get("status") == "cancelled":
      raise Exception("Task was cancelled")\<close>\<close>
  "check_cancelled None s = Return () s"
| "check_cancelled (Some tid) s =
     (if tid \<noteq> [] \<and> get_status tid s = Some ''cancelled''
      then Raise (PyException ''Task was cancelled'') s else Return () s)"

definition page_marker :: "nat \<Rightarrow> string" where
  \<comment> \<open>the page-boundary marker, without the newline that follows it\<close>
  "page_marker page_num = ''--- '' @ kr_page @ '' '' @ str_nat page_num @ '' ---''"

definition cell_text :: "string option \<Rightarrow> string" where
  \<comment> \<open>\<open>str(cell) if cell else ""\<close>\<close>
  "cell_text cell = (case cell of None \<Rightarrow> [] | Some c \<Rightarrow> if c \<noteq> [] then c else [])"

definition row_text :: "string option list option \<Rightarrow> string" where
  \<comment> \<open>what one row of a table adds to the text: nothing for \<open>None\<close> or an empty row\<close>
  "row_text row =
     (case row of
        None \<Rightarrow> []
      | Some cells \<Rightarrow> if cells \<noteq> [] then join '' | '' (map cell_text cells) @ [CHR 0x0A] else [])"

fun tables_loop :: "nat \<Rightarrow> table list \<Rightarrow> string \<Rightarrow> string" where
  \<comment> \<open>\<open>for table_num, table in enumerate(tables, 1)\<close>\<close>
  "tables_loop table_num [] all_text = all_text"
| "tables_loop table_num (tbl # tbls) all_text =
     tables_loop (Suc table_num) tbls
       (all_text @ [CHR 0x0A] @ ''['' @ kr_table @ '' '' @ str_nat table_num @ '']'' @ [CHR 0x0A]
          @ concat (map row_text tbl) @ [CHR 0x0A])"

definition page_progress :: "nat \<Rightarrow> nat \<Rightarrow> int" where
  "page_progress page_num page_count = py_int (10 + (real page_num / real page_count) * 60)"

definition img_progress :: "nat \<Rightarrow> nat \<Rightarrow> nat \<Rightarrow> nat \<Rightarrow> int" where
  "img_progress page_num page_count img_index n_images =
     py_int (70 + ((real page_num - 1) / real page_count
                   + (real img_index + 1) / real n_images / real page_count) * 20)"

definition analysis_section :: "nat \<Rightarrow> string \<Rightarrow> string" where
  \<comment> \<open>the section of image number \<open>k = img_index + 1\<close> holding what the model returned\<close>
  "analysis_section k image_analysis =
     kr_image @ '' '' @ str_nat k @ kr_analysis @ [CHR 0x0A] @ image_analysis @ [CHR 0x0A, CHR 0x0A]"

definition failure_note :: "nat \<Rightarrow> string \<Rightarrow> string" where
  \<comment> \<open>the line of the \<open>except\<close> branch for image number \<open>k = img_index + 1\<close>\<close>
  "failure_note k msg = kr_image @ '' '' @ str_nat k @ kr_analysis_failed @ msg @ [CHR 0x0A]"

definition image_body ::
    "env \<Rightarrow> string \<Rightarrow> string option \<Rightarrow> nat \<Rightarrow> nat \<Rightarrow> nat \<Rightarrow> nat \<Rightarrow> image \<Rightarrow> string \<Rightarrow> state
      \<Rightarrow> string res" where
  \<comment> \<open>one iteration of \<open>for img_index, img in enumerate(image_list)\<close>; \<open>n_images\<close> is
      \<open>len(image_list)\<close>\<close>
  "image_body ev mdl task page_num page_count n_images img_index img all_text s =
     bind_res (check_cancelled task s) (\<lambda>_ s1.
     bind_res (if_task task (\<lambda>tid s.
         if page_count = 0 \<or> n_images = 0 then Raise (PyException ''division by zero'') s
         else bind_res (set_progress tid (img_progress page_num page_count img_index n_images) s) (\<lambda>_.
              set_current_step tid
                (kr_page @ '' '' @ str_nat page_num @ '' '' @ kr_image @ '' '' @ str_nat (img_index + 1)
                   @ ''/'' @ str_nat n_images @ kr_analyzing))) s1) (\<lambda>_ s2.
     case img of
       Inl e \<Rightarrow> Return (all_text @ failure_note (img_index + 1) e) s2
     | Inr pix \<Rightarrow>
         if pix_n pix - pix_alpha pix < 4 then
           (case png_base64 pix of
              Inl e \<Rightarrow> Return (all_text @ failure_note (img_index + 1) e) s2
            | Inr img_base64 \<Rightarrow>
                let s3 = suspend ev (AwaitImage page_num img_index) s2;
                    image_analysis =
                      analyze_image_with_ollama ev (AwaitImage page_num img_index) img_base64 mdl
                in Return (all_text @ analysis_section (img_index + 1) image_analysis) s3)
         else Return all_text s2))"

fun image_loop ::
    "env \<Rightarrow> string \<Rightarrow> string option \<Rightarrow> nat \<Rightarrow> nat \<Rightarrow> nat \<Rightarrow> nat \<Rightarrow> image list \<Rightarrow> string \<Rightarrow> state
      \<Rightarrow> string res" where
  "image_loop ev mdl task page_num page_count n_images img_index [] all_text s = Return all_text s"
| "image_loop ev mdl task page_num page_count n_images img_index (img # imgs) all_text s =
     (case image_body ev mdl task page_num page_count n_images img_index img all_text s of
        Raise e s' \<Rightarrow> Raise e s'
      | Return all_text' s' \<Rightarrow>
          image_loop ev mdl task page_num page_count n_images (Suc img_index) imgs all_text' s')"

definition page_body ::
    "env \<Rightarrow> string \<Rightarrow> string option \<Rightarrow> nat \<Rightarrow> nat \<Rightarrow> fitz_page \<times> plumber_page \<Rightarrow> string \<Rightarrow> state
      \<Rightarrow> string res" where
  \<comment> \<open>one iteration of the loop over \<open>enumerate(zip(pdf_document, pdf.pages), 1)\<close>\<close>
  "page_body ev mdl task page_count page_num pg all_text s =
     (let image_list = fst pg; plumber = snd pg in
      bind_res (check_cancelled task s) (\<lambda>_ s1.
      bind_res (if_task task (\<lambda>tid s.
          if page_count = 0 then Raise (PyException ''division by zero'') s
          else bind_res (set_progress tid (page_progress page_num page_count) s) (\<lambda>_.
               set_current_step tid
                 (kr_page @ '' '' @ str_nat page_num @ ''/'' @ str_nat page_count
                    @ kr_text_extracting))) s1) (\<lambda>_ s2.
      let t1 = all_text @ page_marker page_num @ [CHR 0x0A];
          t2 = (case extract_text plumber of
                  None \<Rightarrow> t1
                | Some page_text \<Rightarrow> if page_text \<noteq> [] then t1 @ page_text @ [CHR 0x0A] else t1);
          t3 = tables_loop 1 (extract_tables plumber) t2
      in bind_res
           (if image_list \<noteq> [] then
              image_loop ev mdl task page_num page_count (length image_list) 0 image_list
                (t3 @ [CHR 0x0A] @ ''['' @ kr_image @ '' '' @ str_nat (length image_list)
                    @ kr_n_results @ '']'' @ [CHR 0x0A]) s2
            else Return t3 s2)
           (\<lambda>t4 s3. Return (t4 @ [CHR 0x0A]) s3))))"

fun page_loop ::
    "env \<Rightarrow> string \<Rightarrow> string option \<Rightarrow> nat \<Rightarrow> nat \<Rightarrow> (fitz_page \<times> plumber_page) list \<Rightarrow> string
      \<Rightarrow> state \<Rightarrow> string res" where
  "page_loop ev mdl task page_count page_num [] all_text s = Return all_text s"
| "page_loop ev mdl task page_count page_num (pg # pgs) all_text s =
     (case page_body ev mdl task page_count page_num pg all_text s of
        Raise e s' \<Rightarrow> Raise e s'
      | Return all_text' s' \<Rightarrow> page_loop ev mdl task page_count (Suc page_num) pgs all_text' s')"

definition extract_try ::
    "env \<Rightarrow> UploadFile \<Rightarrow> string \<Rightarrow> string option \<Rightarrow> state \<Rightarrow> (string \<times> nat) res" where
  \<comment> \<open>the \<open>try\<close> block of \<open>extract_images_from_pdf_and_analyze\<close>\<close>
  "extract_try ev file mdl task s =
     (let s0 = suspend ev AwaitRead s in
      case fitz_open file of
        Inl e \<Rightarrow> Raise (PyException e) s0
      | Inr pdf_document \<Rightarrow>
          let page_count = length pdf_document in
          bind_res (if_task task (\<lambda>tid s.
              bind_res (set_current_step tid
                          (kr_doc_loaded @ str_nat page_count @ kr_page @ '')'') s) (\<lambda>_.
              set_progress tid 10)) s0) (\<lambda>_ s1.
          case pdfplumber_open file of
            Inl e \<Rightarrow> Raise (PyException e) s1
          | Inr pages \<Rightarrow>
              bind_res (page_loop ev mdl task page_count 1 (zip pdf_document pages) [] s1)
                (\<lambda>all_text s2.
              bind_res (if_task task (\<lambda>tid s.
                  bind_res (set_current_step tid kr_pdf_done s) (\<lambda>_. set_progress tid 90)) s2)
                (\<lambda>_ s3.
              Return (strip all_text, page_count) s3))))"

definition extract_images_from_pdf_and_analyze ::
    "env \<Rightarrow> UploadFile \<Rightarrow> string \<Rightarrow> string option \<Rightarrow> state \<Rightarrow> (string \<times> nat) res" where
  "extract_images_from_pdf_and_analyze ev file mdl task s =
     (case extract_try ev file mdl task s of
        Return v s' \<Rightarrow> Return v s'
      | Raise e s' \<Rightarrow>
          if sublist ''cancelled'' (str_exn e) then Raise e s'
          else Raise (HTTPException 400 (''Failed to extract and analyze PDF: '' @ str_exn e)) s')"

definition process_try ::
    "env \<Rightarrow> string \<Rightarrow> UploadFile \<Rightarrow> string \<Rightarrow> string option \<Rightarrow> state \<Rightarrow> unit res" where
  \<comment> \<open>the \<open>try\<close> block of \<open>process_pdf_async\<close>\<close>
  "process_try ev tid file mdl custom_prompt s =
     bind_res (extract_images_from_pdf_and_analyze ev file mdl (Some tid) s) (\<lambda>v s1.
       let text_content = fst v; page_count = snd v in
       if get_status tid s1 = Some ''cancelled'' then Return () s1
       else
         bind_res (set_current_step tid kr_ai_analyzing s1) (\<lambda>_ s2.
         bind_res (set_progress tid 90 s2) (\<lambda>_ s3.
         let s4 = suspend ev AwaitSummarize s3 in
         case analyze_text_with_ollama ev AwaitSummarize text_content mdl custom_prompt of
           Inl e \<Rightarrow> Raise e s4
         | Inr analysis \<Rightarrow>
             update_completed tid
               \<lparr>r_filename = upload_filename file, r_text_content = text_content,
                r_analysis = analysis, r_model_used = mdl, r_page_count = page_count,
                r_task_id = Some tid\<rparr> s4)))"

definition process_pdf_async ::
    "env \<Rightarrow> string \<Rightarrow> UploadFile \<Rightarrow> string \<Rightarrow> string option \<Rightarrow> state \<Rightarrow> unit res" where
  "process_pdf_async ev tid file mdl custom_prompt s =
     (case process_try ev tid file mdl custom_prompt s of
        Return u s' \<Rightarrow> Return u s'
      | Raise e s' \<Rightarrow> update_failed tid (str_exn e) s')"

definition analyze_pdf ::
    "env \<Rightarrow> UploadFile \<Rightarrow> string \<Rightarrow> string option \<Rightarrow> state \<Rightarrow> PDFAnalysisResponse res" where
  \<comment> \<open>the synchronous endpoint: the pipeline without a task\<close>
  "analyze_pdf ev file mdl custom_prompt s =
     (case
        (if \<not> suffix ''.pdf'' (lower (upload_filename file))
         then Raise (HTTPException 400 ''Only PDF files are allowed'') s
         else
           bind_res (extract_images_from_pdf_and_analyze ev file mdl None s) (\<lambda>v s1.
             let text_content = fst v; page_count = snd v in
             if strip text_content = [] then
               Raise (HTTPException 400 ''No text could be extracted from the PDF'') s1
             else
               let s2 = suspend ev AwaitSummarize s1 in
               case analyze_text_with_ollama ev AwaitSummarize text_content mdl custom_prompt of
                 Inl e \<Rightarrow> Raise e s2
               | Inr analysis \<Rightarrow>
                   Return \<lparr>r_filename = upload_filename file, r_text_content = text_content,
                           r_analysis = analysis, r_model_used = mdl, r_page_count = page_count,
                           r_task_id = None\<rparr> s2))
      of Return r s' \<Rightarrow> Return r s'
       | Raise e s' \<Rightarrow> Raise (HTTPException 400 (str_exn e)) s')"

section \<open>Example inputs\<close>

definition ex_task :: "string \<Rightarrow> task" where
  \<comment> \<open>the entry that \<open>analyze_pdf_async\<close> creates for \<open>a.pdf\<close>, with the given status\<close>
  "ex_task st = \<lparr>task_id = ''t1'', status = st, progress = 0, current_step = kr_start,
     result = None, error = None, filename = ''a.pdf'', model = ''gemma3:4b''\<rparr>"

definition ex_state :: "string \<Rightarrow> state" where
  "ex_state st = \<lparr>processing_tasks = [''t1'' \<mapsto> ex_task st], progress_writes = []\<rparr>"

definition ex_page :: plumber_page where
  "ex_page = \<lparr>extract_text = Some ''hello'', extract_tables = []\<rparr>"

definition ex_doc1 :: UploadFile where
  \<comment> \<open>one page, no image\<close>
  "ex_doc1 = \<lparr>upload_filename = ''a.pdf'', fitz_open = Inr [[]], pdfplumber_open = Inr [ex_page]\<rparr>"

definition ex_env_quiet :: env where
  \<comment> \<open>no request during the run; the model answers \<open>ok\<close>\<close>
  "ex_env_quiet = \<lparr>requests = (\<lambda>pt. []), ollama_generate = (\<lambda>pt mdl prompt images. Inr ''ok'')\<rparr>"

definition ex_env_cancel_at_read :: env where
  \<comment> \<open>the cancel request is served while the pipeline awaits the read of the upload\<close>
  "ex_env_cancel_at_read =
     \<lparr>requests = (\<lambda>pt. if pt = AwaitRead then [CancelTask ''t1''] else []),
      ollama_generate = (\<lambda>pt mdl prompt images. Inr ''ok'')\<rparr>"


definition ex_env_summarize_fails :: env where
  \<comment> \<open>the model runtime is unreachable at the final analysis\<close>
  "ex_env_summarize_fails =
     \<lparr>requests = (\<lambda>pt. []),
      ollama_generate = (\<lambda>pt mdl prompt images.
         if pt = AwaitSummarize then Inl ''connection refused'' else Inr ''ok'')\<rparr>"

definition ex_created :: state where
  \<comment> \<open>the state after \<open>POST /pdf/analyze-async\<close> of \<open>ex_doc1\<close> on an empty registry\<close>
  "ex_created =
     final_state (analyze_pdf_async ''t1'' ex_doc1 ''gemma3:4b''
                    \<lparr>processing_tasks = Map.empty, progress_writes = []\<rparr>)"


definition ex_cmyk :: pixmap where
  \<comment> \<open>four colour components, no alpha\<close>
  "ex_cmyk = \<lparr>pix_n = 4, pix_alpha = 0, png_base64 = Inr ''iVBORw0KGgo=''\<rparr>"







section \<open>The writes of a run\<close>

text \<open>
  \<open>steps s s'\<close>: the state \<open>s'\<close> comes from \<open>s\<close> by writes of \<open>progress\<close>, writes of
  \<open>current_step\<close> and served requests, in any number and order. The extraction phase
  changes the state in no other way (lemma \<open>steps_extract\<close> below).
\<close>

inductive steps :: "state \<Rightarrow> state \<Rightarrow> bool" where
  steps_refl: "steps s s"
| steps_progress: "steps s s1 \<Longrightarrow> steps s (final_state (set_progress k v s1))"
| steps_current_step: "steps s s1 \<Longrightarrow> steps s (final_state (set_current_step k v s1))"
| steps_serve: "steps s s1 \<Longrightarrow> steps s (serve r s1)"



section \<open>The accumulated text, as a function of the document\<close>

text \<open>
  What each loop appends to \<open>all_text\<close> when it returns, read off \<open>image_body\<close>,
  \<open>page_body\<close> and the two loops (lemma \<open>page_loop_text\<close> below relates them to the loops).
\<close>

definition rendered_image :: "env \<Rightarrow> string \<Rightarrow> nat \<Rightarrow> nat \<Rightarrow> image \<Rightarrow> string" where
  "rendered_image ev mdl page_num img_index img =
     (case img of
        Inl e \<Rightarrow> failure_note (img_index + 1) e
      | Inr pix \<Rightarrow>
          if pix_n pix - pix_alpha pix < 4 then
            (case png_base64 pix of
               Inl e \<Rightarrow> failure_note (img_index + 1) e
             | Inr img_base64 \<Rightarrow>
                 analysis_section (img_index + 1)
                   (analyze_image_with_ollama ev (AwaitImage page_num img_index) img_base64 mdl))
          else [])"

fun rendered_images :: "env \<Rightarrow> string \<Rightarrow> nat \<Rightarrow> nat \<Rightarrow> image list \<Rightarrow> string" where
  "rendered_images ev mdl page_num img_index [] = []"
| "rendered_images ev mdl page_num img_index (img # imgs) =
     rendered_image ev mdl page_num img_index img @ rendered_images ev mdl page_num (Suc img_index) imgs"

definition page_content :: "plumber_page \<Rightarrow> string" where
  \<comment> \<open>the text and the tables of a page\<close>
  "page_content p =
     (case extract_text p of
        None \<Rightarrow> []
      | Some page_text \<Rightarrow> if page_text \<noteq> [] then page_text @ [CHR 0x0A] else [])
     @ tables_loop 1 (extract_tables p) []"

definition rendered_page :: "env \<Rightarrow> string \<Rightarrow> nat \<Rightarrow> fitz_page \<times> plumber_page \<Rightarrow> string" where
  "rendered_page ev mdl page_num pg =
     page_marker page_num @ [CHR 0x0A] @ page_content (snd pg)
       @ (if fst pg \<noteq> [] then
            [CHR 0x0A] @ ''['' @ kr_image @ '' '' @ str_nat (length (fst pg)) @ kr_n_results @ '']''
              @ [CHR 0x0A] @ rendered_images ev mdl page_num 0 (fst pg)
          else [])
       @ [CHR 0x0A]"

fun rendered_pages :: "env \<Rightarrow> string \<Rightarrow> nat \<Rightarrow> (fitz_page \<times> plumber_page) list \<Rightarrow> string" where
  "rendered_pages ev mdl page_num [] = []"
| "rendered_pages ev mdl page_num (pg # pgs) =
     rendered_page ev mdl page_num pg @ rendered_pages ev mdl (Suc page_num) pgs"

section \<open>Reading markers back from a text\<close>







section \<open>Auxiliary lemmas\<close>

lemma ex_created_eq: "ex_created = \<lparr>processing_tasks = [''t1'' \<mapsto> ex_task ''processing''], progress_writes = [(''t1'', ''processing'', 0)]\<rparr>"
  by (simp add: ex_created_def analyze_pdf_async_def ex_doc1_def ex_task_def lower_def suffix_def)

lemmas pipeline_defs =
  process_pdf_async_def process_try_def extract_images_from_pdf_and_analyze_def extract_try_def
  page_body_def image_body_def suspend_def cancel_task_def delete_task_def
  set_progress_def set_current_step_def set_status_def update_completed_def update_failed_def
  get_status_def analyze_text_with_ollama_def analyze_image_with_ollama_def

lemma cancelled_in_msg: "sublist ''cancelled'' ''Task was cancelled''"
  by (simp add: sublist_code)

subsection \<open>Requests served during an await\<close>

lemma serve_present:
  assumes "processing_tasks s tid = Some t" and "r \<noteq> DeleteTask tid"
  shows "\<exists>t'. processing_tasks (serve r s) tid = Some t'
              \<and> result t' = result t \<and> error t' = error t \<and> progress t' = progress t"
proof (cases r)
  case (CancelTask k)
  show ?thesis
  proof (cases "processing_tasks s k")
    case None
    with CancelTask assms show ?thesis by (simp add: cancel_task_def)
  next
    case (Some u)
    with CancelTask assms show ?thesis
      by (cases "k = tid")
         (auto simp: cancel_task_def set_status_def set_current_step_def simp del: set_simps)
  qed
next
  case (DeleteTask k)
  with assms have "k \<noteq> tid" by simp
  with DeleteTask assms show ?thesis
    by (cases "processing_tasks s k") (simp_all add: delete_task_def)
qed

lemma fold_serve_present:
  assumes "processing_tasks s tid = Some t" and "DeleteTask tid \<notin> set rs"
  shows "\<exists>t'. processing_tasks (fold serve rs s) tid = Some t'
              \<and> result t' = result t \<and> error t' = error t \<and> progress t' = progress t"
  using assms
proof (induction rs arbitrary: s t)
  case Nil
  then show ?case by simp
next
  case (Cons r rs)
  from Cons.prems have "r \<noteq> DeleteTask tid" by auto
  from serve_present [OF Cons.prems(1) this]
  obtain u where u: "processing_tasks (serve r s) tid = Some u"
    "result u = result t" "error u = error t" "progress u = progress t" by blast
  from Cons.prems have "DeleteTask tid \<notin> set rs" by simp
  from Cons.IH [OF u(1) this] u show ?case by auto
qed

lemma serve_progress_writes: "progress_writes (serve r s) = progress_writes s"
proof (cases r)
  case (CancelTask k)
  then show ?thesis
    by (cases "processing_tasks s k")
       (auto simp: cancel_task_def set_status_def set_current_step_def simp del: set_simps)
next
  case (DeleteTask k)
  then show ?thesis by (cases "processing_tasks s k") (simp_all add: delete_task_def)
qed

lemma analyze_text_Inl:
  assumes "analyze_text_with_ollama ev pt text mdl prompt = Inl e"
  shows "\<exists>m. e = HTTPException 500 (''Failed to analyze text with Ollama: '' @ m)"
  using assms by (auto simp: analyze_text_with_ollama_def Let_def split: sum.splits)

subsection \<open>The extraction phase only writes progress and steps\<close>

lemma steps_trans: "steps s1 s2 \<Longrightarrow> steps s0 s1 \<Longrightarrow> steps s0 s2"
  by (induction rule: steps.induct) (auto intro: steps.intros)

lemma steps_bind:
  assumes "steps s (final_state m)"
    and "\<And>a s1. m = Return a s1 \<Longrightarrow> steps s1 (final_state (f a s1))"
  shows "steps s (final_state (bind_res m f))"
proof (cases m)
  case (Return a s1)
  with assms(2) have "steps s1 (final_state (f a s1))" by simp
  moreover from Return assms(1) have "steps s s1" by simp
  ultimately show ?thesis using Return by (simp add: steps_trans)
next
  case (Raise e s1)
  with assms(1) show ?thesis by simp
qed

lemma final_state_check_cancelled: "final_state (check_cancelled task s) = s"
  by (cases task) simp_all

lemma check_cancelled_Return: "check_cancelled task s = Return a s1 \<Longrightarrow> s1 = s"
  by (cases task) (simp_all split: if_splits)

lemma steps_if_task:
  assumes "\<And>tid. steps s (final_state (f tid s))"
  shows "steps s (final_state (if_task task f s))"
  using assms by (cases task) (simp_all add: steps_refl)

lemma steps_fold_serve: "steps s (fold serve rs s)"
proof (induction rs arbitrary: s)
  case Nil
  show ?case by (simp add: steps_refl)
next
  case (Cons r rs)
  have "steps s (serve r s)" by (rule steps_serve [OF steps_refl])
  with Cons [of "serve r s"] show ?case by (simp add: steps_trans)
qed

lemma steps_suspend: "steps s (suspend ev pt s)"
  by (simp add: suspend_def steps_fold_serve)

lemma steps_progress_then_step:
  "steps s (final_state (bind_res (set_progress tid p s) (\<lambda>_. set_current_step tid c)))"
  by (rule steps_bind) (auto intro: steps.intros)

lemma steps_step_then_progress:
  "steps s (final_state (bind_res (set_current_step tid c s) (\<lambda>_. set_progress tid p)))"
  by (rule steps_bind) (auto intro: steps.intros)

lemma steps_image_body:
  "steps s (final_state (image_body ev mdl task page_num page_count n_images img_index img all_text s))"
  unfolding image_body_def
  apply (rule steps_bind)
   apply (simp add: final_state_check_cancelled steps_refl)
  apply (drule check_cancelled_Return, simp)
  apply (rule steps_bind)
   apply (rule steps_if_task)
   apply (simp add: steps_refl steps_progress_then_step)
  apply (auto simp: Let_def steps_refl steps_suspend split: sum.splits)
  done

lemma steps_image_loop:
  "steps s (final_state (image_loop ev mdl task page_num page_count n_images img_index imgs all_text s))"
proof (induction imgs arbitrary: img_index all_text s)
  case Nil
  show ?case by (simp add: steps_refl)
next
  case (Cons img imgs)
  have b: "steps s (final_state (image_body ev mdl task page_num page_count n_images img_index img all_text s))"
    by (rule steps_image_body)
  show ?case
  proof (cases "image_body ev mdl task page_num page_count n_images img_index img all_text s")
    case (Return t s1)
    with b have "steps s s1" by simp
    with Cons [of s1 "Suc img_index" t] Return show ?thesis by (simp add: steps_trans)
  next
    case (Raise e s1)
    with b show ?thesis by simp
  qed
qed

lemma steps_page_body:
  "steps s (final_state (page_body ev mdl task page_count page_num pg all_text s))"
  unfolding page_body_def Let_def
  apply (rule steps_bind)
   apply (simp add: final_state_check_cancelled steps_refl)
  apply (drule check_cancelled_Return, simp)
  apply (rule steps_bind)
   apply (rule steps_if_task)
   apply (simp add: steps_refl steps_progress_then_step)
  apply (rule steps_bind)
   apply (simp add: steps_refl steps_image_loop)
  apply (simp add: steps_refl)
  done

lemma steps_page_loop:
  "steps s (final_state (page_loop ev mdl task page_count page_num pgs all_text s))"
proof (induction pgs arbitrary: page_num all_text s)
  case Nil
  show ?case by (simp add: steps_refl)
next
  case (Cons pg pgs)
  have b: "steps s (final_state (page_body ev mdl task page_count page_num pg all_text s))"
    by (rule steps_page_body)
  show ?case
  proof (cases "page_body ev mdl task page_count page_num pg all_text s")
    case (Return t s1)
    with b have "steps s s1" by simp
    with Cons [of s1 "Suc page_num" t] Return show ?thesis by (simp add: steps_trans)
  next
    case (Raise e s1)
    with b show ?thesis by simp
  qed
qed

lemma steps_extract_try: "steps s (final_state (extract_try ev file mdl task s))"
proof -
  have s0: "steps s (suspend ev AwaitRead s)" by (rule steps_suspend)
  show ?thesis
  proof (cases "fitz_open file")
    case (Inl e)
    with s0 show ?thesis by (simp add: extract_try_def)
  next
    case (Inr pdf_document)
    have "steps (suspend ev AwaitRead s)
            (final_state (extract_try ev file mdl task s))"
      unfolding extract_try_def Let_def Inr sum.case
      apply (rule steps_bind)
       apply (rule steps_if_task)
       apply (rule steps_step_then_progress)
      apply (cases "pdfplumber_open file")
       apply (simp add: steps_refl)
      apply simp
      apply (rule steps_bind)
       apply (rule steps_page_loop)
      apply (rule steps_bind)
       apply (rule steps_if_task)
       apply (rule steps_step_then_progress)
      apply (simp add: steps_refl)
      done
    with s0 show ?thesis by (rule steps_trans [rotated])
  qed
qed

lemma steps_extract:
  "steps s (final_state (extract_images_from_pdf_and_analyze ev file mdl task s))"
  using steps_extract_try [of s ev "file" mdl task]
  by (cases "extract_try ev file mdl task s")
     (simp_all add: extract_images_from_pdf_and_analyze_def)

lemma steps_result_None:
  assumes "steps s s'" and "\<forall>t. processing_tasks s tid = Some t \<longrightarrow> result t = None"
  shows "\<forall>t. processing_tasks s' tid = Some t \<longrightarrow> result t = None"
  using assms
proof (induction rule: steps.induct)
  case (steps_refl s)
  then show ?case by simp
next
  case (steps_progress s s1 k v)
  then show ?case
    by (cases "processing_tasks s1 k") (auto simp: set_progress_def)
next
  case (steps_current_step s s1 k v)
  then show ?case
    by (cases "processing_tasks s1 k") (auto simp: set_current_step_def)
next
  case (steps_serve s s1 r)
  then have IH: "\<forall>t. processing_tasks s1 tid = Some t \<longrightarrow> result t = None" by simp
  show ?case
  proof (cases r)
    case (CancelTask k)
    show ?thesis
    proof (cases "processing_tasks s1 k")
      case None
      with CancelTask IH show ?thesis by (simp add: cancel_task_def)
    next
      case (Some u)
      with CancelTask IH show ?thesis
        by (auto simp: cancel_task_def set_status_def set_current_step_def simp del: set_simps)
    qed
  next
    case (DeleteTask k)
    with IH show ?thesis
      by (cases "processing_tasks s1 k") (auto simp: delete_task_def)
  qed
qed

subsection \<open>Runs without interference\<close>















subsection \<open>The progress formulas\<close>













subsection \<open>The text that the loops return\<close>

lemma bind_res_Return:
  assumes "bind_res m f = Return b s'"
  obtains a s1 where "m = Return a s1" and "f a s1 = Return b s'"
  using assms by (cases m) simp_all

lemma tables_loop_append: "tables_loop k tbls t = t @ tables_loop k tbls []"
proof (induction tbls arbitrary: k t)
  case Nil
  show ?case by simp
next
  case (Cons tbl tbls)
  show ?case
    by (subst (2) tables_loop.simps, subst (1) tables_loop.simps,
        subst Cons [of "Suc k"], subst (2) Cons [of "Suc k"]) simp
qed

lemma image_body_text:
  assumes "image_body ev mdl task page_num page_count n_images img_index img all_text s = Return t s'"
  shows "t = all_text @ rendered_image ev mdl page_num img_index img"
proof -
  from assms obtain u s1 where "check_cancelled task s = Return u s1"
    and r: "bind_res (if_task task (\<lambda>tid s.
         if page_count = 0 \<or> n_images = 0 then Raise (PyException ''division by zero'') s
         else bind_res (set_progress tid (img_progress page_num page_count img_index n_images) s) (\<lambda>_.
              set_current_step tid
                (kr_page @ '' '' @ str_nat page_num @ '' '' @ kr_image @ '' '' @ str_nat (img_index + 1)
                   @ ''/'' @ str_nat n_images @ kr_analyzing))) s1) (\<lambda>_ s2.
     case img of
       Inl e \<Rightarrow> Return (all_text @ failure_note (img_index + 1) e) s2
     | Inr pix \<Rightarrow>
         if pix_n pix - pix_alpha pix < 4 then
           (case png_base64 pix of
              Inl e \<Rightarrow> Return (all_text @ failure_note (img_index + 1) e) s2
            | Inr img_base64 \<Rightarrow>
                let s3 = suspend ev (AwaitImage page_num img_index) s2;
                    image_analysis =
                      analyze_image_with_ollama ev (AwaitImage page_num img_index) img_base64 mdl
                in Return (all_text @ analysis_section (img_index + 1) image_analysis) s3)
         else Return all_text s2) = Return t s'"
    unfolding image_body_def by (rule bind_res_Return)
  from r show ?thesis
    by (rule bind_res_Return)
       (auto simp: rendered_image_def Let_def split: sum.splits if_splits)
qed

lemma image_loop_text:
  "image_loop ev mdl task page_num page_count n_images img_index imgs all_text s = Return t s'
   \<Longrightarrow> t = all_text @ rendered_images ev mdl page_num img_index imgs"
proof (induction imgs arbitrary: img_index all_text s)
  case Nil
  then show ?case by simp
next
  case (Cons img imgs)
  show ?case
  proof (cases "image_body ev mdl task page_num page_count n_images img_index img all_text s")
    case (Return t1 s1)
    with Cons.prems
    have "image_loop ev mdl task page_num page_count n_images (Suc img_index) imgs t1 s1 = Return t s'"
      by simp
    from Cons.IH [OF this] image_body_text [OF Return] show ?thesis by simp
  next
    case (Raise e s1)
    with Cons.prems show ?thesis by simp
  qed
qed

lemma page_body_text:
  assumes "page_body ev mdl task page_count page_num pg all_text s = Return t s'"
  shows "t = all_text @ rendered_page ev mdl page_num pg"
proof -
  let ?t3 = "tables_loop 1 (extract_tables (snd pg))
               (case extract_text (snd pg) of
                  None \<Rightarrow> all_text @ page_marker page_num @ [CHR 0x0A]
                | Some page_text \<Rightarrow>
                    if page_text \<noteq> [] then (all_text @ page_marker page_num @ [CHR 0x0A]) @ page_text @ [CHR 0x0A]
                    else all_text @ page_marker page_num @ [CHR 0x0A])"
  have t3: "?t3 = all_text @ page_marker page_num @ [CHR 0x0A] @ page_content (snd pg)"
    by (subst tables_loop_append) (simp add: page_content_def split: option.splits)
  from assms obtain u s1 where "check_cancelled task s = Return u s1"
    and r: "bind_res (if_task task (\<lambda>tid s.
          if page_count = 0 then Raise (PyException ''division by zero'') s
          else bind_res (set_progress tid (page_progress page_num page_count) s) (\<lambda>_.
               set_current_step tid
                 (kr_page @ '' '' @ str_nat page_num @ ''/'' @ str_nat page_count
                    @ kr_text_extracting))) s1) (\<lambda>_ s2.
           bind_res
           (if fst pg \<noteq> [] then
              image_loop ev mdl task page_num page_count (length (fst pg)) 0 (fst pg)
                (?t3 @ [CHR 0x0A] @ ''['' @ kr_image @ '' '' @ str_nat (length (fst pg))
                    @ kr_n_results @ '']'' @ [CHR 0x0A]) s2
            else Return ?t3 s2)
           (\<lambda>t4 s3. Return (t4 @ [CHR 0x0A]) s3)) = Return t s'"
    unfolding page_body_def Let_def by (rule bind_res_Return)
  from r obtain v s2 where
    r2: "bind_res
           (if fst pg \<noteq> [] then
              image_loop ev mdl task page_num page_count (length (fst pg)) 0 (fst pg)
                (?t3 @ [CHR 0x0A] @ ''['' @ kr_image @ '' '' @ str_nat (length (fst pg))
                    @ kr_n_results @ '']'' @ [CHR 0x0A]) s2
            else Return ?t3 s2)
           (\<lambda>t4 s3. Return (t4 @ [CHR 0x0A]) s3) = Return t s'"
    by (rule bind_res_Return)
  from r2 obtain t4 s3 where
    l: "(if fst pg \<noteq> [] then
              image_loop ev mdl task page_num page_count (length (fst pg)) 0 (fst pg)
                (?t3 @ [CHR 0x0A] @ ''['' @ kr_image @ '' '' @ str_nat (length (fst pg))
                    @ kr_n_results @ '']'' @ [CHR 0x0A]) s2
            else Return ?t3 s2) = Return t4 s3"
    and t: "Return (t4 @ [CHR 0x0A]) s3 = Return t s'"
    by (rule bind_res_Return)
  show ?thesis
  proof (cases "fst pg = []")
    case True
    with l t t3 show ?thesis by (simp add: rendered_page_def)
  next
    case False
    with l have "image_loop ev mdl task page_num page_count (length (fst pg)) 0 (fst pg)
                (?t3 @ [CHR 0x0A] @ ''['' @ kr_image @ '' '' @ str_nat (length (fst pg))
                    @ kr_n_results @ '']'' @ [CHR 0x0A]) s2 = Return t4 s3"
      by simp
    from image_loop_text [OF this] t t3 False show ?thesis
      by (simp add: rendered_page_def)
  qed
qed

lemma page_loop_text:
  "page_loop ev mdl task page_count page_num pgs all_text s = Return t s'
   \<Longrightarrow> t = all_text @ rendered_pages ev mdl page_num pgs"
proof (induction pgs arbitrary: page_num all_text s)
  case Nil
  then show ?case by simp
next
  case (Cons pg pgs)
  show ?case
  proof (cases "page_body ev mdl task page_count page_num pg all_text s")
    case (Return t1 s1)
    with Cons.prems
    have "page_loop ev mdl task page_count (Suc page_num) pgs t1 s1 = Return t s'"
      by simp
    from Cons.IH [OF this] page_body_text [OF Return] show ?thesis by simp
  next
    case (Raise e s1)
    with Cons.prems show ?thesis by simp
  qed
qed

lemma extract_try_text:
  assumes "extract_try ev file mdl task s = Return (t, pc) s'"
  shows "\<exists>fps pps. fitz_open file = Inr fps \<and> pdfplumber_open file = Inr pps
           \<and> pc = length fps \<and> t = strip (rendered_pages ev mdl 1 (zip fps pps))"
proof (cases "fitz_open file")
  case (Inl e)
  with assms show ?thesis by (simp add: extract_try_def)
next
  case fitz: (Inr fps)
  show ?thesis
  proof (cases "pdfplumber_open file")
    case (Inl e)
    with assms fitz show ?thesis
      by (auto simp: extract_try_def Let_def elim!: bind_res_Return)
  next
    case plumber: (Inr pps)
    from assms fitz plumber obtain u s1 all_text s2 where
      "page_loop ev mdl task (length fps) 1 (zip fps pps) [] s1 = Return all_text s2"
      and "t = strip all_text" and "pc = length fps"
      by (auto simp: extract_try_def Let_def elim!: bind_res_Return)
    with page_loop_text [of ev mdl task "length fps" 1 "zip fps pps" "[]" s1 all_text s2]
      fitz plumber show ?thesis by simp
  qed
qed

lemma extract_text:
  assumes "extract_images_from_pdf_and_analyze ev file mdl task s = Return (t, pc) s'"
  shows "\<exists>fps pps. fitz_open file = Inr fps \<and> pdfplumber_open file = Inr pps
           \<and> pc = length fps \<and> t = strip (rendered_pages ev mdl 1 (zip fps pps))"
proof (cases "extract_try ev file mdl task s")
  case (Return v s1)
  with assms have "extract_try ev file mdl task s = Return (t, pc) s'"
    by (simp add: extract_images_from_pdf_and_analyze_def)
  then show ?thesis by (rule extract_try_text)
next
  case (Raise e s1)
  with assms show ?thesis
    by (simp add: extract_images_from_pdf_and_analyze_def split: if_splits)
qed

subsection \<open>Without a task the extraction always returns\<close>




subsection \<open>Stripping\<close>







subsection \<open>Decimal numbers\<close>









subsection \<open>Strings in order\<close>





subsection \<open>Page markers in the rendered text\<close>


lemma page_marker_Cons: "page_marker k = CHR ''-'' # tl (page_marker k)"
  by (simp add: page_marker_def)








subsection \<open>Counting the markers of a text\<close>













subsection \<open>A run without interference completes\<close>



subsection \<open>Image sections in the rendered text\<close>












section \<open>Cancelling a task\<close>

text \<open>
  C5. For a task present in the registry, \<open>cancel_task\<close> on a task whose status is
  \<open>processing\<close> succeeds and leaves it \<open>cancelled\<close>; on a task whose status is
  \<open>completed\<close>, \<open>failed\<close> or \<open>cancelled\<close> it raises \<open>HTTPException(400)\<close> and the state is
  the one before the call.
\<close>

theorem cancel_task_by_status:
  assumes "processing_tasks s tid = Some t"
  shows "(status t = ''processing'' \<longrightarrow>
            cancel_task tid s = Return ''Task cancelled successfully''
              (s\<lparr>processing_tasks := (processing_tasks s)(tid \<mapsto>
                    t\<lparr>status := ''cancelled'', current_step := kr_cancelled_by_user\<rparr>)\<rparr>))
       \<and> (status t \<in> {''completed'', ''failed'', ''cancelled''} \<longrightarrow>
            cancel_task tid s = Raise (HTTPException 400 ''Task cannot be cancelled'') s)"
  using assms by (auto simp: cancel_task_def set_status_def set_current_step_def)

theorem cancel_task_by_status_witness:
  "get_status ''t1'' (final_state (cancel_task ''t1'' (ex_state ''processing''))) = Some ''cancelled''
   \<and> cancel_task ''t1'' (ex_state ''completed'')
       = Raise (HTTPException 400 ''Task cannot be cancelled'') (ex_state ''completed'')"
  using cancel_task_by_status [of "ex_state ''processing''" "''t1''" "ex_task ''processing''"]
        cancel_task_by_status [of "ex_state ''completed''" "''t1''" "ex_task ''completed''"]
  by (simp add: ex_state_def ex_task_def get_status_def)

section \<open>What cancelling writes\<close>




section \<open>Progress updates\<close>




section \<open>Cancellation observed at a checkpoint\<close>

text \<open>
  C1. The task \<open>t1\<close> is created for the one-page document \<open>ex_doc1\<close> and cancelled
  while the pipeline awaits the read of the upload, before the first checkpoint. The check
  of line 138 raises \<open>Exception("Task was cancelled")\<close>, line 209 re-raises it, and the
  handler of \<open>process_pdf_async\<close> (lines 403-409) stores it as a failure: the task ends
  \<open>failed\<close> with \<open>error\<close> set, not \<open>cancelled\<close> with \<open>error\<close> absent.
\<close>

theorem cancel_before_first_checkpoint_ends_failed:
  "map_option (\<lambda>t. (status t, result t, error t))
     (processing_tasks
        (final_state (process_pdf_async ex_env_cancel_at_read ''t1'' ex_doc1 ''gemma3:4b'' None
                        ex_created)) ''t1'')
   = Some (''failed'', None, Some ''Task was cancelled'')"
  by (simp add: ex_created_eq ex_env_cancel_at_read_def ex_doc1_def ex_task_def pipeline_defs
        cancelled_in_msg)

section \<open>Cancellation racing with completion\<close>





section \<open>Failure of the final analysis\<close>

text \<open>
  C8. For a task created by \<open>analyze_pdf_async\<close>: when the extraction has returned, the
  task is there and not cancelled at the check of line 377, and the final analysis raises
  (\<open>analyze_text_with_ollama\<close> turns the model error into \<open>HTTPException(500)\<close>), the run
  ends with the task \<open>failed\<close>, its \<open>error\<close> a non-empty string and its \<open>result\<close> absent.
  Requests served while the analysis is awaited do not change this, a deletion of the task
  apart.
\<close>

theorem summarize_failure_ends_failed:
  assumes created: "analyze_pdf_async tid file mdl s0 = Return tid s"
    and ext: "extract_images_from_pdf_and_analyze ev file mdl (Some tid) s = Return (text, pc) s1"
    and present: "processing_tasks s1 tid = Some t1"
    and not_cancelled: "status t1 \<noteq> ''cancelled''"
    and reqs: "DeleteTask tid \<notin> set (requests ev AwaitSummarize)"
    and fails: "analyze_text_with_ollama ev AwaitSummarize text mdl prompt = Inl e"
  shows "\<exists>s' t' msg. process_pdf_async ev tid file mdl prompt s = Return () s'
           \<and> processing_tasks s' tid = Some t'
           \<and> status t' = ''failed'' \<and> error t' = Some msg \<and> msg \<noteq> [] \<and> result t' = None"
proof -
  from created have "\<forall>t. processing_tasks s tid = Some t \<longrightarrow> result t = None"
    by (auto simp: analyze_pdf_async_def split: if_splits)
  moreover have "steps s s1"
    using steps_extract [of s ev "file" mdl "Some tid"] ext by simp
  ultimately have no_result: "result t1 = None"
    using steps_result_None present by blast
  let ?s3 = "s1\<lparr>processing_tasks := (processing_tasks s1)(tid \<mapsto> t1\<lparr>current_step := kr_ai_analyzing, progress := 90\<rparr>),
                 progress_writes := progress_writes s1 @ [(tid, status t1, 90)]\<rparr>"
  have "processing_tasks ?s3 tid = Some (t1\<lparr>current_step := kr_ai_analyzing, progress := 90\<rparr>)"
    by simp
  from fold_serve_present [OF this reqs] no_result
  obtain u where u: "processing_tasks (fold serve (requests ev AwaitSummarize) ?s3) tid = Some u"
    "result u = None" by auto
  from analyze_text_Inl [OF fails]
  obtain m where m: "e = HTTPException 500 (''Failed to analyze text with Ollama: '' @ m)" by blast
  from ext present not_cancelled fails u m show ?thesis
    by (simp add: process_pdf_async_def process_try_def get_status_def set_current_step_def
          set_progress_def suspend_def update_failed_def Let_def)
qed


theorem summarize_failure_ends_failed_witness:
  "\<exists>s' t' msg. process_pdf_async ex_env_summarize_fails ''t1'' ex_doc1 ''gemma3:4b'' None ex_created
             = Return () s'
           \<and> processing_tasks s' ''t1'' = Some t'
           \<and> status t' = ''failed'' \<and> error t' = Some msg \<and> msg \<noteq> [] \<and> result t' = None"
proof -
  let ?s0 = "\<lparr>processing_tasks = Map.empty, progress_writes = []\<rparr>"
  let ?t1 = "(ex_task ''processing'')\<lparr>progress := 90, current_step := kr_pdf_done\<rparr>"
  let ?s1 = "\<lparr>processing_tasks = [''t1'' \<mapsto> ?t1],
              progress_writes = [(''t1'', ''processing'', 0), (''t1'', ''processing'', 10),
                                 (''t1'', ''processing'', 70), (''t1'', ''processing'', 90)]\<rparr>"
  let ?text = "strip (page_marker 1 @ [CHR 0x0A] @ ''hello'' @ [CHR 0x0A, CHR 0x0A])"
  have created: "analyze_pdf_async ''t1'' ex_doc1 ''gemma3:4b'' ?s0 = Return ''t1'' ex_created"
    by (simp add: ex_created_def analyze_pdf_async_def ex_doc1_def lower_def suffix_def)
  have ext: "extract_images_from_pdf_and_analyze ex_env_summarize_fails ex_doc1 ''gemma3:4b''
               (Some ''t1'') ex_created = Return (?text, 1) ?s1"
    by (simp add: ex_created_eq ex_env_summarize_fails_def ex_doc1_def ex_task_def
          ex_page_def pipeline_defs page_progress_def py_int_def)
  have present: "processing_tasks ?s1 ''t1'' = Some ?t1"
    by simp
  have not_cancelled: "status ?t1 \<noteq> ''cancelled''"
    by (simp add: ex_task_def)
  have reqs: "DeleteTask ''t1'' \<notin> set (requests ex_env_summarize_fails AwaitSummarize)"
    by (simp add: ex_env_summarize_fails_def)
  have fails: "analyze_text_with_ollama ex_env_summarize_fails AwaitSummarize ?text ''gemma3:4b'' None
            = Inl (HTTPException 500 ''Failed to analyze text with Ollama: connection refused'')"
    by (simp add: analyze_text_with_ollama_def ex_env_summarize_fails_def)
  from summarize_failure_ends_failed [OF created ext present not_cancelled reqs fails]
  show ?thesis .
qed

section \<open>Images with four or more colour components\<close>

text \<open>
  C10. An embedded image whose pixmap has \<open>pix.n - pix.alpha \<ge> 4\<close> (CMYK, for one) is
  skipped by the iteration of the image loop: the accumulated text comes back as it went in
  (no description section, no failure note); nothing of the environment is used (no call of
  the model, no await), so the outcome is the same under any other environment; only the
  cancellation check and the progress write of the iteration take place; and the loop goes on
  with the next image.
\<close>

theorem four_component_image_skipped:
  assumes "4 \<le> pix_n pix - pix_alpha pix"
  shows "image_body ev mdl None page_num page_count n_images img_index (Inr pix) all_text s
           = Return all_text s
       \<and> (\<forall>tid t. tid \<noteq> [] \<and> processing_tasks s tid = Some t \<and> status t \<noteq> ''cancelled''
                  \<and> 0 < page_count \<and> 0 < n_images \<longrightarrow>
            (\<exists>s'. image_body ev mdl (Some tid) page_num page_count n_images img_index (Inr pix)
                     all_text s = Return all_text s'
                  \<and> progress_writes s'
                      = progress_writes s
                        @ [(tid, status t, img_progress page_num page_count img_index n_images)]))
       \<and> (\<forall>t s'. image_body ev mdl task page_num page_count n_images img_index (Inr pix) all_text s
                    = Return t s' \<longrightarrow> t = all_text)
       \<and> image_body ev mdl task page_num page_count n_images img_index (Inr pix) all_text s
           = image_body ev' mdl' task page_num page_count n_images img_index (Inr pix) all_text s
       \<and> image_loop ev mdl None page_num page_count n_images img_index (Inr pix # imgs) all_text s
           = image_loop ev mdl None page_num page_count n_images (Suc img_index) imgs all_text s"
proof -
  have not_lt: "\<not> pix_n pix - pix_alpha pix < 4" using assms by simp
  have a: "image_body ev mdl None page_num page_count n_images img_index (Inr pix) all_text s
           = Return all_text s"
    using not_lt by (simp add: image_body_def)
  have b: "\<forall>tid t. tid \<noteq> [] \<and> processing_tasks s tid = Some t \<and> status t \<noteq> ''cancelled''
                  \<and> 0 < page_count \<and> 0 < n_images \<longrightarrow>
            (\<exists>s'. image_body ev mdl (Some tid) page_num page_count n_images img_index (Inr pix)
                     all_text s = Return all_text s'
                  \<and> progress_writes s'
                      = progress_writes s
                        @ [(tid, status t, img_progress page_num page_count img_index n_images)])"
    using not_lt
    by (auto simp: image_body_def get_status_def set_progress_def set_current_step_def)
  have c: "\<forall>t s'. image_body ev mdl task page_num page_count n_images img_index (Inr pix) all_text s
                    = Return t s' \<longrightarrow> t = all_text"
  proof (intro allI impI)
    fix t s'
    assume r: "image_body ev mdl task page_num page_count n_images img_index (Inr pix) all_text s
                 = Return t s'"
    show "t = all_text"
    proof (cases "check_cancelled task s")
      case (Raise e s1)
      with r show ?thesis by (simp add: image_body_def)
    next
      case (Return u s1)
      show ?thesis
      proof (cases "if_task task (\<lambda>tid s.
         if page_count = 0 \<or> n_images = 0 then Raise (PyException ''division by zero'') s
         else bind_res (set_progress tid (img_progress page_num page_count img_index n_images) s) (\<lambda>_.
              set_current_step tid
                (kr_page @ '' '' @ str_nat page_num @ '' '' @ kr_image @ '' '' @ str_nat (img_index + 1)
                   @ ''/'' @ str_nat n_images @ kr_analyzing))) s1")
        case (Raise e s2)
        with r Return show ?thesis by (simp add: image_body_def)
      next
        case (Return v s2)
        with r \<open>check_cancelled task s = Return u s1\<close> not_lt show ?thesis
          by (simp add: image_body_def)
      qed
    qed
  qed
  have d: "image_body ev mdl task page_num page_count n_images img_index (Inr pix) all_text s
           = image_body ev' mdl' task page_num page_count n_images img_index (Inr pix) all_text s"
    using not_lt by (simp add: image_body_def)
  have e: "image_loop ev mdl None page_num page_count n_images img_index (Inr pix # imgs) all_text s
           = image_loop ev mdl None page_num page_count n_images (Suc img_index) imgs all_text s"
    using a by simp
  from a b c d e show ?thesis by blast
qed

theorem four_component_image_skipped_witness:
  "image_body ex_env_quiet ''gemma3:4b'' None 1 1 1 0 (Inr ex_cmyk) ''abc''
     (ex_state ''processing'') = Return ''abc'' (ex_state ''processing'')
   \<and> (\<exists>s'. image_body ex_env_quiet ''gemma3:4b'' (Some ''t1'') 1 1 1 0 (Inr ex_cmyk) ''abc''
              (ex_state ''processing'') = Return ''abc'' s'
           \<and> progress_writes s' = [(''t1'', ''processing'', 90)])"
proof -
  have h: "4 \<le> pix_n ex_cmyk - pix_alpha ex_cmyk" by (simp add: ex_cmyk_def)
  have p: "img_progress (Suc 0) (Suc 0) 0 (Suc 0) = 90" by (simp add: img_progress_def py_int_def)
  note inst = four_component_image_skipped [OF h, of ex_env_quiet "''gemma3:4b''" 1 1 1 0 "''abc''"
         "ex_state ''processing''" None ex_env_quiet "''gemma3:4b''" "[]"]
  from inst have a: "image_body ex_env_quiet ''gemma3:4b'' None 1 1 1 0 (Inr ex_cmyk) ''abc''
     (ex_state ''processing'') = Return ''abc'' (ex_state ''processing'')"
    by (rule conjunct1)
  from inst have "\<forall>tid t. tid \<noteq> [] \<and> processing_tasks (ex_state ''processing'') tid = Some t
                  \<and> status t \<noteq> ''cancelled'' \<and> 0 < (1::nat) \<and> 0 < (1::nat) \<longrightarrow>
            (\<exists>s'. image_body ex_env_quiet ''gemma3:4b'' (Some tid) 1 1 1 0 (Inr ex_cmyk)
                     ''abc'' (ex_state ''processing'') = Return ''abc'' s'
                  \<and> progress_writes s'
                      = progress_writes (ex_state ''processing'')
                        @ [(tid, status t, img_progress 1 1 0 1)])"
    by blast
  from this [rule_format, of "''t1''" "ex_task ''processing''"]
  have b: "\<exists>s'. image_body ex_env_quiet ''gemma3:4b'' (Some ''t1'') 1 1 1 0 (Inr ex_cmyk) ''abc''
              (ex_state ''processing'') = Return ''abc'' s'
           \<and> progress_writes s' = [(''t1'', ''processing'', 90)]"
    by (simp add: ex_state_def ex_task_def p)
  from a b show ?thesis by blast
qed

section \<open>The sequence of progress writes\<close>




section \<open>Page-boundary markers\<close>





section \<open>Failing image descriptions\<close>




end
